theory Spec2Isabelle
  imports Main
begin

section \<open>Chat polling (ui.js, UIManager)\<close>

text \<open>
  \<^verbatim>\<open>UIManager\<close> keeps two fields for the chat polling: \<^verbatim>\<open>chatPolling\<close> (the handle
  returned by \<^verbatim>\<open>setInterval\<close>, or null) and \<^verbatim>\<open>currentGroupId\<close>. The window's timer
  table is part of the state as well: \<open>intervals\<close> lists the active interval timers, each
  with the group id its callback closes over, and \<open>lastHandle\<close> is the last handle
  the window gave out. \<^verbatim>\<open>setInterval\<close> returns a fresh handle greater than zero.
\<close>

record ui_state =
  chatPolling :: "nat option"
  currentGroupId :: "string option"
  intervals :: "(nat \<times> string) list"
  lastHandle :: nat

definition ui_init :: ui_state where
  "ui_init = \<lparr>chatPolling = None, currentGroupId = None, intervals = [], lastHandle = 0\<rparr>"

text \<open>\<^verbatim>\<open>clearInterval(h)\<close>: the timer with handle \<open>h\<close> is removed; no effect when there is none.\<close>

definition clearInterval :: "nat \<Rightarrow> ui_state \<Rightarrow> ui_state" where
  "clearInterval h u = u\<lparr>intervals := filter (\<lambda>t. fst t \<noteq> h) (intervals u)\<rparr>"

text \<open>\<^verbatim>\<open>setInterval(callback, 10000)\<close>: registers the timer and returns its handle.\<close>

definition setInterval :: "string \<Rightarrow> ui_state \<Rightarrow> nat \<times> ui_state" where
  "setInterval g u =
     (let h = Suc (lastHandle u)
      in (h, u\<lparr>intervals := intervals u @ [(h, g)], lastHandle := h\<rparr>))"

text \<open>JavaScript truthiness of \<^verbatim>\<open>this.chatPolling\<close>: null and the number 0 are falsy.\<close>

fun truthy_handle :: "nat option \<Rightarrow> bool" where
  "truthy_handle None = False"
| "truthy_handle (Some h) = (h \<noteq> 0)"

text \<open>
  \<^verbatim>\<open>stopChatPolling() { if (this.chatPolling) { clearInterval(this.chatPolling);
  this.chatPolling = null; } }\<close>
\<close>

definition stopChatPolling :: "ui_state \<Rightarrow> ui_state" where
  "stopChatPolling u =
     (if truthy_handle (chatPolling u)
      then (clearInterval (the (chatPolling u)) u)\<lparr>chatPolling := None\<rparr>
      else u)"

text \<open>
  \<^verbatim>\<open>startChatPolling(groupId) { this.stopChatPolling(); this.currentGroupId = groupId;
  this.chatPolling = setInterval(..., 10000); }\<close>
\<close>

definition startChatPolling :: "string \<Rightarrow> ui_state \<Rightarrow> ui_state" where
  "startChatPolling g u =
     (let u1 = stopChatPolling u;
          u2 = u1\<lparr>currentGroupId := Some g\<rparr>;
          (h, u3) = setInterval g u2
      in u3\<lparr>chatPolling := Some h\<rparr>)"

text \<open>Any sequence of \<^verbatim>\<open>start\<close>/\<^verbatim>\<open>stop\<close> calls on the manager the constructor built.\<close>

datatype polling_op = Start string | Stop

fun polling_step :: "ui_state \<Rightarrow> polling_op \<Rightarrow> ui_state" where
  "polling_step u (Start g) = startChatPolling g u"
| "polling_step u Stop = stopChatPolling u"

definition polling_run :: "polling_op list \<Rightarrow> ui_state" where
  "polling_run ops = foldl polling_step ui_init ops"

text \<open>
  The invariant that ties the field to the timer table: the active timers are exactly
  the one the handle names (none when the handle is null), and handles are positive and
  not ahead of the counter.
\<close>

definition polling_inv :: "ui_state \<Rightarrow> bool" where
  "polling_inv u =
     (case chatPolling u of
        None \<Rightarrow> intervals u = []
      | Some h \<Rightarrow> h \<noteq> 0 \<and> h \<le> lastHandle u \<and>
          (case currentGroupId u of None \<Rightarrow> False | Some g \<Rightarrow> intervals u = [(h, g)]))"

section \<open>The route table and route matching (router.js)\<close>

text \<open>
  A route definition holds a handler and its policy. The handlers are closures over the
  router; here they are named. \<^verbatim>\<open>this.routes\<close> is a \<^verbatim>\<open>Map\<close>, which keeps its keys in
  insertion order: an association list, with \<^verbatim>\<open>routes.set\<close> replacing the value of a key
  that is present and appending otherwise.
\<close>

datatype handler =
  RedirectToDefaultRoute | RenderLogin | RenderRegister | RenderDashboard | RenderGroup

record route =
  handler :: handler
  requiresAuth :: bool
  redirectIfAuth :: "string option"

type_synonym params = "string \<rightharpoonup> string"

type_synonym route_table = "(string \<times> route) list"

fun routes_set :: "string \<Rightarrow> route \<Rightarrow> route_table \<Rightarrow> route_table" where
  "routes_set k v [] = [(k, v)]"
| "routes_set k v ((k', v') # rs) =
     (if k = k' then (k, v) # rs else (k', v') # routes_set k v rs)"

text \<open>\<^verbatim>\<open>setupRoutes()\<close>: the five \<^verbatim>\<open>this.routes.set\<close> calls, the first innermost.\<close>

definition setupRoutes :: route_table where
  "setupRoutes =
     (routes_set ''/group/:id''
        \<lparr>handler = RenderGroup, requiresAuth = True, redirectIfAuth = None\<rparr>
     (routes_set ''/dashboard''
        \<lparr>handler = RenderDashboard, requiresAuth = True, redirectIfAuth = None\<rparr>
     (routes_set ''/register''
        \<lparr>handler = RenderRegister, requiresAuth = False, redirectIfAuth = Some ''/dashboard''\<rparr>
     (routes_set ''/login''
        \<lparr>handler = RenderLogin, requiresAuth = False, redirectIfAuth = Some ''/dashboard''\<rparr>
     (routes_set ''/''
        \<lparr>handler = RedirectToDefaultRoute, requiresAuth = False, redirectIfAuth = None\<rparr>
      [])))))"

text \<open>The class \<^verbatim>\<open>\w\<close> of a regular expression without flags.\<close>

definition isWordChar :: "char \<Rightarrow> bool" where
  "isWordChar c =
     (c \<in> set ''abcdefghijklmnopqrstuvwxyzABCDEFGHIJKLMNOPQRSTUVWXYZ0123456789_'')"

text \<open>
  \<^verbatim>\<open>matchRoute\<close> builds the source of a regular expression from the pattern:
  \<^verbatim>\<open>pattern.replace(/:\w+/g, ...)\<close> puts the group \<^verbatim>\<open>([^/]+)\<close> in the place of each
  \<^verbatim>\<open>:name\<close> (leftmost first, the name as long as it can be) and pushes the name, and
  \<^verbatim>\<open>.replace(/\//g, '\\/')\<close> escapes every slash, the one inside the group too; an
  escaped slash matches a slash, in a class as well. The expression is kept as a list of
  atoms: \<open>Group\<close> for \<^verbatim>\<open>([^\/]+)\<close>, \<open>Lit c\<close> for a character that stands for itself.
  A character of the pattern that is special in a regular expression is outside this
  model; \<open>segment_pattern\<close> below excludes such patterns, and the route table of
  \<^verbatim>\<open>setupRoutes\<close> has none.
\<close>

datatype atom = Lit char | Group

function replaceParams :: "string \<Rightarrow> string list \<times> atom list" where
  "replaceParams [] = ([], [])"
| "replaceParams (c # cs) =
     (if c = CHR '':'' \<and> takeWhile isWordChar cs \<noteq> []
      then (let (ns, as) = replaceParams (dropWhile isWordChar cs)
            in (takeWhile isWordChar cs # ns, Group # as))
      else (let (ns, as) = replaceParams cs in (ns, Lit c # as)))"
  by pat_completeness auto
termination
  by (relation "measure length") (auto simp: length_dropWhile_le less_Suc_eq_le)

definition notSlash :: "char \<Rightarrow> bool" where
  "notSlash c = (c \<noteq> CHR ''/'')"

fun first_some :: "'a option list \<Rightarrow> 'a option" where
  "first_some [] = None"
| "first_some (None # xs) = first_some xs"
| "first_some (Some x # xs) = Some x"

text \<open>
  \<^verbatim>\<open>path.match(new RegExp(`^${regexPattern}$`))\<close>: the whole path has to match. A group
  is greedy and backtracks: it tries the longest run of characters other than a slash
  first, then shorter ones, down to one character. The result lists what the groups
  captured.
\<close>

fun regex_match :: "atom list \<Rightarrow> string \<Rightarrow> string list option" where
  "regex_match [] s = (if s = [] then Some [] else None)"
| "regex_match (Lit c # as) s =
     (case s of [] \<Rightarrow> None | d # ds \<Rightarrow> if d = c then regex_match as ds else None)"
| "regex_match (Group # as) s =
     first_some (map (\<lambda>k. map_option ((#) (take k s)) (regex_match as (drop k s)))
                     (rev [1 ..< Suc (length (takeWhile notSlash s))]))"

text \<open>\<^verbatim>\<open>paramNames.forEach((name, index) => { params[name] = match[index + 1]; })\<close>\<close>

definition assign_params :: "string list \<Rightarrow> string list \<Rightarrow> params" where
  "assign_params names caps = fold (\<lambda>(n, v) m. m(n \<mapsto> v)) (zip names caps) Map.empty"

definition matchRoute :: "string \<Rightarrow> string \<Rightarrow> params option" where
  "matchRoute pattern path =
     (let (paramNames, regexPattern) = replaceParams pattern
      in case regex_match regexPattern path of
           None \<Rightarrow> None
         | Some caps \<Rightarrow> Some (assign_params paramNames caps))"

text \<open>The loop of \<^verbatim>\<open>findRoute\<close> over \<^verbatim>\<open>this.routes.entries()\<close>, left at the first match.\<close>

fun firstPattern :: "route_table \<Rightarrow> string \<Rightarrow> (route \<times> params) option" where
  "firstPattern [] path = None"
| "firstPattern ((pattern, r) # rs) path =
     (case matchRoute pattern path of
        Some ps \<Rightarrow> Some (r, ps)
      | None \<Rightarrow> firstPattern rs path)"

text \<open>
  \<^verbatim>\<open>findRoute(path)\<close>: \<^verbatim>\<open>this.routes.has(path)\<close> first, with empty \<^verbatim>\<open>params\<close>; then the
  loop. The result is the route with its \<^verbatim>\<open>params\<close>, or null.
\<close>

definition findRoute :: "route_table \<Rightarrow> string \<Rightarrow> (route \<times> params) option" where
  "findRoute rs path =
     (case map_of rs path of
        Some r \<Rightarrow> Some (r, Map.empty)
      | None \<Rightarrow> firstPattern rs path)"

subsection \<open>Matching as the specification words it\<close>

text \<open>
  The specification matches by path segments: a pattern and a path are cut at the
  slashes, a literal segment has to be equal to the path's segment, and \<^verbatim>\<open>:name\<close>
  matches one segment that is not empty and binds it to \<open>name\<close>. A literal exact match
  is tried first, then the patterns in the order of declaration, and the first that
  matches wins.
\<close>

fun split_slash :: "string \<Rightarrow> string list" where
  "split_slash [] = [[]]"
| "split_slash (c # cs) =
     (if c = CHR ''/'' then [] # split_slash cs
      else (c # hd (split_slash cs)) # tl (split_slash cs))"










section \<open>The state of the application\<close>

subsection \<open>Values of the HTTP layer (api.js)\<close>

text \<open>
  Of a parsed response body the code reads \<^verbatim>\<open>success\<close>, \<^verbatim>\<open>data.user\<close>, \<^verbatim>\<open>data.token\<close>
  and \<^verbatim>\<open>error.message\<close>; a body is the JSON value null, a JSON object with these
  fields (each may be missing), or the text of a response that is not JSON.
\<close>

record user =
  user_id :: nat
  user_name :: string

record auth_data =
  data_user :: "user option"
  data_token :: "string option"

record payload =
  success :: bool
  payload_data :: "auth_data option"
  error_message :: "string option"

datatype body = JsonNull | JsonObject payload | TextBody string

text \<open>An \<^verbatim>\<open>Error\<close> object: its constructor's name, its message, and the \<^verbatim>\<open>status\<close> and
  \<^verbatim>\<open>data\<close> properties \<^verbatim>\<open>request\<close> adds when the server answered.\<close>

record js_error =
  error_name :: string
  message :: string
  status :: "nat option"
  error_data :: "body option"

text \<open>
  What \<^verbatim>\<open>fetch\<close> resolves with: the status line, the \<^verbatim>\<open>content-type\<close> header, and
  the body as \<^verbatim>\<open>response.json()\<close> would parse it (\<open>None\<close> when it does not parse and
  \<^verbatim>\<open>json()\<close> rejects) and as \<^verbatim>\<open>response.text()\<close> would read it. \<open>Rejected\<close> is a
  \<^verbatim>\<open>fetch\<close> that rejects: no response came.
\<close>

record http_response =
  resp_status :: nat
  statusText :: string
  contentType :: "string option"
  json_body :: "body option"
  text_body :: string

datatype fetch_outcome = Rejected string | Responded http_response

subsection \<open>The singletons and the window\<close>

text \<open>What the program does to the world outside, in order.\<close>

datatype event =
    PushState string
  | ReplaceState string
  | Invoked handler params
  | NotFoundPage
  | Toast string
  | AuthLogoutEvent
  | ConsoleError

text \<open>
  One record for the singletons: \<open>token\<close> is \<^verbatim>\<open>api.client.token\<close>, \<open>stored_token\<close> the
  \<^verbatim>\<open>auth_token\<close> key of \<^verbatim>\<open>localStorage\<close>; \<open>user\<close>, \<open>isAuthenticated\<close>, \<open>isLoading\<close> are
  the fields of \<^verbatim>\<open>auth\<close>; \<open>currentRoute\<close>, \<open>currentParams\<close> those of \<^verbatim>\<open>router\<close>;
  \<open>awaitingInitial\<close> says that the listener \<^verbatim>\<open>handleInitialRoute\<close> registers is still
  subscribed; \<open>pathname\<close> is \<^verbatim>\<open>window.location.pathname\<close>.
\<close>

record app =
  token :: "string option"
  stored_token :: "string option"
  user :: "user option"
  isAuthenticated :: bool
  isLoading :: bool
  currentRoute :: "string option"
  currentParams :: params
  awaitingInitial :: bool
  pathname :: string
  ui :: ui_state
  events :: "event list"

text \<open>Truthiness of a string that may be null or undefined: the empty string is falsy.\<close>

fun truthy_str :: "string option \<Rightarrow> bool" where
  "truthy_str None = False"
| "truthy_str (Some s) = (s \<noteq> [])"

definition emit :: "event \<Rightarrow> app \<Rightarrow> app" where
  "emit e s = s\<lparr>events := events s @ [e]\<rparr>"

section \<open>Router: resolving a route (router.js)\<close>

text \<open>
  \<^verbatim>\<open>handleRoute\<close> and \<^verbatim>\<open>navigate\<close> call each other. The table is the one
  \<^verbatim>\<open>setupRoutes\<close> builds in the constructor; nothing assigns \<^verbatim>\<open>this.routes\<close>
  afterwards. On that table the recursion ends: a redirect goes to a route that does not
  redirect again. \<open>redirects\<close> counts whether resolving a path redirects, given
  \<^verbatim>\<open>auth.isAuthenticated\<close>; the facts below are what the termination proof needs.
\<close>

definition redirects :: "string \<Rightarrow> bool \<Rightarrow> nat" where
  "redirects path a =
     (case findRoute setupRoutes path of
        None \<Rightarrow> 0
      | Some (r, ps) \<Rightarrow>
          if requiresAuth r \<and> \<not> a then 1
          else if truthy_str (redirectIfAuth r) \<and> a then 1
          else if handler r = RedirectToDefaultRoute then 1 else 0)"

lemma firstPattern_in: "firstPattern rs path = Some (r, ps) \<Longrightarrow> r \<in> snd ` set rs"
  by (induction rs) (auto split: option.splits)

lemma findRoute_in: "findRoute rs path = Some (r, ps) \<Longrightarrow> r \<in> snd ` set rs"
  by (auto simp: findRoute_def split: option.splits dest: firstPattern_in map_of_SomeD)
     (metis map_of_SomeD snd_conv image_eqI)

lemma setupRoutes_redirect:
  "r \<in> snd ` set setupRoutes \<Longrightarrow> truthy_str (redirectIfAuth r) \<Longrightarrow>
   redirectIfAuth r = Some ''/dashboard''"
  by (auto simp: setupRoutes_def)

lemma findRoute_login:
  "findRoute setupRoutes ''/login'' =
     Some (\<lparr>handler = RenderLogin, requiresAuth = False, redirectIfAuth = Some ''/dashboard''\<rparr>,
           Map.empty)"
  by (simp add: findRoute_def setupRoutes_def)

lemma findRoute_dashboard:
  "findRoute setupRoutes ''/dashboard'' =
     Some (\<lparr>handler = RenderDashboard, requiresAuth = True, redirectIfAuth = None\<rparr>, Map.empty)"
  by (simp add: findRoute_def setupRoutes_def)

lemma findRoute_root:
  "findRoute setupRoutes ''/'' =
     Some (\<lparr>handler = RedirectToDefaultRoute, requiresAuth = False, redirectIfAuth = None\<rparr>,
           Map.empty)"
  by (simp add: findRoute_def setupRoutes_def)

lemma redirects_login: "redirects ''/login'' False = 0"
  by (simp add: redirects_def findRoute_login)

lemma redirects_dashboard: "redirects ''/dashboard'' True = 0"
  by (simp add: redirects_def findRoute_dashboard)

lemma redirects_protected:
  "findRoute setupRoutes path = Some (r, ps) \<Longrightarrow> requiresAuth r \<Longrightarrow> \<not> a \<Longrightarrow>
   redirects path a = 1"
  by (simp add: redirects_def)

lemma redirects_guest:
  "findRoute setupRoutes path = Some (r, ps) \<Longrightarrow> truthy_str (redirectIfAuth r) \<Longrightarrow> a \<Longrightarrow>
   redirects path a = 1"
  by (simp add: redirects_def)

lemma redirects_default:
  "findRoute setupRoutes path = Some (r, ps) \<Longrightarrow> handler r = RedirectToDefaultRoute \<Longrightarrow>
   redirects path a = 1"
  by (simp add: redirects_def)

text \<open>
  \<^verbatim>\<open>handleRoute(path)\<close> up to the handler's first \<^verbatim>\<open>await\<close>: no route, the 404 page;
  a route that requires authentication while \<^verbatim>\<open>auth.isAuthenticated\<close> is false,
  \<^verbatim>\<open>navigate('/login', true)\<close>; a route with \<^verbatim>\<open>redirectIfAuth\<close> while authenticated,
  \<^verbatim>\<open>navigate(route.redirectIfAuth, true)\<close>; otherwise the current route and parameters
  are set and the handler is called. The handler of \<^verbatim>\<open>/\<close> is \<^verbatim>\<open>redirectToDefaultRoute\<close>,
  which navigates; the page handlers work on the document, which is not modelled: the
  call is recorded as \<open>Invoked\<close>.

  \<^verbatim>\<open>navigate(path, replace)\<close>: nothing when \<open>path\<close> is the current route; otherwise
  \<^verbatim>\<open>history.replaceState\<close> or \<^verbatim>\<open>pushState\<close>, which sets the location, then
  \<^verbatim>\<open>handleRoute(path)\<close>. Paths are absolute and carry no query or fragment, as the
  ones the program navigates to, so the new \<^verbatim>\<open>location.pathname\<close> is \<open>path\<close>.
\<close>

function handleRoute :: "string \<Rightarrow> app \<Rightarrow> app"
  and navigate :: "string \<Rightarrow> bool \<Rightarrow> app \<Rightarrow> app" where
  "handleRoute path s =
     (case findRoute setupRoutes path of
        None \<Rightarrow> emit NotFoundPage s
      | Some (r, ps) \<Rightarrow>
          if requiresAuth r \<and> \<not> isAuthenticated s then navigate ''/login'' True s
          else if truthy_str (redirectIfAuth r) \<and> isAuthenticated s
               then navigate (the (redirectIfAuth r)) True s
          else (let s1 = s\<lparr>currentRoute := Some path, currentParams := ps\<rparr>;
                    s2 = emit (Invoked (handler r) ps) s1
                in if handler r = RedirectToDefaultRoute
                   then navigate (if isAuthenticated s2 then ''/dashboard'' else ''/login'') True s2
                   else s2))"
| "navigate path replace s =
     (if currentRoute s = Some path then s
      else handleRoute path
             (emit (if replace then ReplaceState path else PushState path)
                (s\<lparr>pathname := path\<rparr>)))"
  by pat_completeness auto
termination
proof (relation "measure (\<lambda>x. case x of
          Inl (path, s) \<Rightarrow> 2 * redirects path (isAuthenticated s)
        | Inr (path, replace, s) \<Rightarrow> 2 * redirects path (isAuthenticated s) + 1)", goal_cases)
  case 1
  then show ?case by simp
next
  case (2 path s x2 r ps)
  then have "redirects path (isAuthenticated s) = 1"
    using redirects_protected [of path r ps "isAuthenticated s"] by simp
  moreover have "redirects ''/login'' (isAuthenticated s) = 0"
    using 2 redirects_login by simp
  ultimately show ?case by simp
next
  case (3 path s x2 r ps)
  then have t: "redirectIfAuth r = Some ''/dashboard''"
    using findRoute_in [of setupRoutes path r ps] setupRoutes_redirect [of r] by simp
  have "redirects path (isAuthenticated s) = 1"
    using 3 redirects_guest [of path r ps "isAuthenticated s"] by simp
  moreover have "redirects ''/dashboard'' (isAuthenticated s) = 0"
    using 3 redirects_dashboard by simp
  ultimately show ?case using t by simp
next
  case (4 path s x2 r ps s1 s2)
  then have a: "isAuthenticated s2 = isAuthenticated s"
    by (simp add: emit_def)
  have "redirects path (isAuthenticated s) = 1"
    using 4 redirects_default [of path r ps "isAuthenticated s"] by simp
  moreover have "redirects (if isAuthenticated s then ''/dashboard'' else ''/login'')
      (isAuthenticated s) = 0"
    using redirects_dashboard redirects_login by simp
  ultimately show ?case using a by simp
next
  case (5 path replace s)
  then show ?case by (simp add: emit_def)
qed

declare handleRoute.simps [simp del] navigate.simps [simp del]

text \<open>
  \<^verbatim>\<open>handleAuthStateChange(authState)\<close>: the route of the current location is looked up
  again, and the two redirects of \<^verbatim>\<open>handleRoute\<close> are applied to it.
\<close>

definition handleAuthStateChange :: "app \<Rightarrow> app" where
  "handleAuthStateChange s =
     (case findRoute setupRoutes (pathname s) of
        None \<Rightarrow> s
      | Some (r, ps) \<Rightarrow>
          if requiresAuth r \<and> \<not> isAuthenticated s then navigate ''/login'' True s
          else if truthy_str (redirectIfAuth r) \<and> isAuthenticated s
               then navigate (the (redirectIfAuth r)) True s
          else s)"

text \<open>The \<^verbatim>\<open>popstate\<close> listener; the browser has moved the location already.\<close>

definition popstate :: "string \<Rightarrow> app \<Rightarrow> app" where
  "popstate path s = handleRoute path (s\<lparr>pathname := path\<rparr>)"

text \<open>
  The end of \<^verbatim>\<open>renderGroup(groupId)\<close>, after its awaits, when the group was loaded: the
  page is rendered (not modelled) and \<^verbatim>\<open>ui.startChatPolling(groupId)\<close> is called.
\<close>

definition renderGroup_loaded :: "string \<Rightarrow> app \<Rightarrow> app" where
  "renderGroup_loaded groupId s = s\<lparr>ui := startChatPolling groupId (ui s)\<rparr>"

section \<open>ApiClient and ApiService (api.js)\<close>

text \<open>
  \<^verbatim>\<open>setToken(token) { this.token = token; if (token) localStorage.setItem('auth_token', token);
  else localStorage.removeItem('auth_token'); }\<close>
\<close>

definition setToken :: "string option \<Rightarrow> app \<Rightarrow> app" where
  "setToken tok s = s\<lparr>token := tok, stored_token := (if truthy_str tok then tok else None)\<rparr>"

section \<open>AuthManager: listeners and state (auth.js)\<close>

text \<open>
  \<^verbatim>\<open>notifyListeners()\<close> calls the listeners in the order they subscribed. The router
  subscribes one in \<^verbatim>\<open>setupEventListeners\<close>, which calls \<^verbatim>\<open>handleAuthStateChange\<close> when
  \<^verbatim>\<open>isLoading\<close> is false, and, when it is built while \<^verbatim>\<open>auth.isLoading\<close> holds, a
  second in \<^verbatim>\<open>handleInitialRoute\<close>, which unsubscribes itself and resolves the location
  once \<^verbatim>\<open>isLoading\<close> is false.
\<close>

definition notifyListeners :: "app \<Rightarrow> app" where
  "notifyListeners s =
     (let s1 = (if \<not> isLoading s then handleAuthStateChange s else s)
      in if awaitingInitial s \<and> \<not> isLoading s
         then handleRoute (pathname s1) (s1\<lparr>awaitingInitial := False\<rparr>)
         else s1)"

definition setUser :: "user \<Rightarrow> app \<Rightarrow> app" where
  "setUser u s = notifyListeners (s\<lparr>user := Some u, isAuthenticated := True\<rparr>)"

definition clearAuth :: "app \<Rightarrow> app" where
  "clearAuth s = notifyListeners (setToken None (s\<lparr>user := None, isAuthenticated := False\<rparr>))"

text \<open>
  \<^verbatim>\<open>window.dispatchEvent(new CustomEvent('auth:logout'))\<close>: the listener auth.js
  registers runs at once and calls \<^verbatim>\<open>auth.clearAuth()\<close>.
\<close>

definition dispatch_auth_logout :: "app \<Rightarrow> app" where
  "dispatch_auth_logout s = clearAuth (emit AuthLogoutEvent s)"

section \<open>ApiClient.request\<close>

text \<open>\<^verbatim>\<open>hay.includes(needle)\<close>\<close>

definition includes_str :: "string \<Rightarrow> string \<Rightarrow> bool" where
  "includes_str hay needle =
     list_ex (\<lambda>k. take (length needle) (drop k hay) = needle) [0 ..< Suc (length hay)]"

definition digit_char :: "nat \<Rightarrow> char" where
  "digit_char n = ''0123456789'' ! n"

function show_nat :: "nat \<Rightarrow> string" where
  "show_nat n = (if n < 10 then [digit_char n] else show_nat (n div 10) @ [digit_char (n mod 10)])"
  by pat_completeness auto
termination
  by (relation "measure id") auto

declare show_nat.simps [simp del]

text \<open>\<^verbatim>\<open>response.ok\<close>\<close>

definition response_ok :: "http_response \<Rightarrow> bool" where
  "response_ok r = (200 \<le> resp_status r \<and> resp_status r \<le> 299)"

text \<open>
  The body is read with \<^verbatim>\<open>response.json()\<close> when the content type is there and
  includes \<^verbatim>\<open>application/json\<close>, with \<^verbatim>\<open>response.text()\<close> otherwise; \<^verbatim>\<open>json()\<close>
  rejects with a \<^verbatim>\<open>SyntaxError\<close> when the body does not parse.
\<close>

definition read_body :: "http_response \<Rightarrow> js_error + body" where
  "read_body r =
     (if (case contentType r of None \<Rightarrow> False | Some ct \<Rightarrow> includes_str ct ''application/json'')
      then (case json_body r of
              None \<Rightarrow> Inl \<lparr>error_name = ''SyntaxError'', message = ''Unexpected end of JSON input'',
                          status = None, error_data = None\<rparr>
            | Some b \<Rightarrow> Inr b)
      else Inr (TextBody (text_body r)))"

text \<open>\<^verbatim>\<open>data?.error?.message\<close>\<close>

fun server_message :: "body \<Rightarrow> string option" where
  "server_message (JsonObject p) = error_message p"
| "server_message _ = None"

text \<open>The \<^verbatim>\<open>try\<close> block of \<^verbatim>\<open>request\<close>: what it returns, or what it throws.\<close>

definition request_try :: "fetch_outcome \<Rightarrow> js_error + body" where
  "request_try out =
     (case out of
        Rejected m \<Rightarrow>
          Inl \<lparr>error_name = ''TypeError'', message = m, status = None, error_data = None\<rparr>
      | Responded r \<Rightarrow>
          (case read_body r of
             Inl e \<Rightarrow> Inl e
           | Inr d \<Rightarrow>
               if \<not> response_ok r
               then Inl \<lparr>error_name = ''Error'',
                        message = (if truthy_str (server_message d) then the (server_message d)
                                   else ''HTTP '' @ show_nat (resp_status r) @ '': '' @ statusText r),
                        status = Some (resp_status r), error_data = Some d\<rparr>
               else Inr d))"

text \<open>
  \<^verbatim>\<open>request(endpoint, options)\<close>, given what \<^verbatim>\<open>fetch\<close> did. The \<^verbatim>\<open>catch\<close> block: when
  \<^verbatim>\<open>error.status === 401\<close> the token is cleared and \<^verbatim>\<open>auth:logout\<close> is dispatched; the
  error is logged and thrown again.
\<close>

definition request :: "string \<Rightarrow> fetch_outcome \<Rightarrow> app \<Rightarrow> (js_error + body) \<times> app" where
  "request endpoint out s =
     (case request_try out of
        Inr d \<Rightarrow> (Inr d, s)
      | Inl e \<Rightarrow>
          (let s1 = (if status e = Some 401 then dispatch_auth_logout (setToken None s) else s)
           in (Inl e, emit ConsoleError s1)))"

section \<open>ApiService\<close>

definition type_error :: js_error where
  "type_error = \<lparr>error_name = ''TypeError'', message = ''Cannot read properties of undefined'',
                 status = None, error_data = None\<rparr>"

text \<open>
  The expression \<^verbatim>\<open>response.success && response.data.field\<close>: a \<^verbatim>\<open>TypeError\<close> when the
  response is null, or when \<^verbatim>\<open>success\<close> is true and there is no \<^verbatim>\<open>data\<close>; otherwise the
  field, or nothing when \<^verbatim>\<open>success\<close> is falsy.
\<close>

definition success_and :: "(auth_data \<Rightarrow> 'a option) \<Rightarrow> body \<Rightarrow> js_error + 'a option" where
  "success_and field response =
     (case response of
        JsonNull \<Rightarrow> Inl type_error
      | TextBody t \<Rightarrow> Inr None
      | JsonObject p \<Rightarrow>
          if success p
          then (case payload_data p of None \<Rightarrow> Inl type_error | Some d \<Rightarrow> Inr (field d))
          else Inr None)"

text \<open>
  \<^verbatim>\<open>api.login(email, password)\<close>: the request, then
  \<^verbatim>\<open>if (response.success && response.data.token) this.client.setToken(response.data.token)\<close>,
  and the response is returned.
\<close>

definition api_login :: "fetch_outcome \<Rightarrow> app \<Rightarrow> (js_error + body) \<times> app" where
  "api_login out s =
     (case request ''/api/auth/login'' out s of
        (Inl e, s1) \<Rightarrow> (Inl e, s1)
      | (Inr response, s1) \<Rightarrow>
          (case success_and data_token response of
             Inl e \<Rightarrow> (Inl e, s1)
           | Inr t \<Rightarrow>
               if truthy_str t then (Inr response, setToken t s1) else (Inr response, s1)))"

definition api_register :: "fetch_outcome \<Rightarrow> app \<Rightarrow> (js_error + body) \<times> app" where
  "api_register out s =
     (case request ''/api/auth/register'' out s of
        (Inl e, s1) \<Rightarrow> (Inl e, s1)
      | (Inr response, s1) \<Rightarrow>
          (case success_and data_token response of
             Inl e \<Rightarrow> (Inl e, s1)
           | Inr t \<Rightarrow>
               if truthy_str t then (Inr response, setToken t s1) else (Inr response, s1)))"

definition getProfile :: "fetch_outcome \<Rightarrow> app \<Rightarrow> (js_error + body) \<times> app" where
  "getProfile out s = request ''/api/auth/profile'' out s"

text \<open>\<^verbatim>\<open>api.logout()\<close>\<close>

definition api_logout :: "app \<Rightarrow> app" where
  "api_logout s = dispatch_auth_logout (setToken None s)"

section \<open>AuthManager: login, register, token validation, logout\<close>

text \<open>\<^verbatim>\<open>handleApiError(error)\<close> shows an error toast; its text is not modelled.\<close>

definition handleApiError :: "js_error \<Rightarrow> app \<Rightarrow> app" where
  "handleApiError e s = emit (Toast ''error'') s"

text \<open>\<^verbatim>\<open>new Error('Resposta invalida do servidor')\<close> (the message without its accent).\<close>

definition invalid_response :: js_error where
  "invalid_response = \<lparr>error_name = ''Error'', message = ''Resposta invalida do servidor'',
                       status = None, error_data = None\<rparr>"

text \<open>
  \<^verbatim>\<open>auth.login(email, password)\<close>: \<^verbatim>\<open>api.login\<close>, then
  \<^verbatim>\<open>if (response.success && response.data.user)\<close> the user is set, a success toast is
  shown and the response returned; else the invalid-response error is thrown. The
  \<^verbatim>\<open>catch\<close> block calls \<^verbatim>\<open>handleApiError\<close> and throws the error again.
\<close>

definition login :: "fetch_outcome \<Rightarrow> app \<Rightarrow> (js_error + body) \<times> app" where
  "login out s =
     (case api_login out s of
        (Inl e, s1) \<Rightarrow> (Inl e, handleApiError e s1)
      | (Inr response, s1) \<Rightarrow>
          (case success_and data_user response of
             Inl e \<Rightarrow> (Inl e, handleApiError e s1)
           | Inr (Some u) \<Rightarrow> (Inr response, emit (Toast ''success'') (setUser u s1))
           | Inr None \<Rightarrow> (Inl invalid_response, handleApiError invalid_response s1)))"

definition register :: "fetch_outcome \<Rightarrow> app \<Rightarrow> (js_error + body) \<times> app" where
  "register out s =
     (case api_register out s of
        (Inl e, s1) \<Rightarrow> (Inl e, handleApiError e s1)
      | (Inr response, s1) \<Rightarrow>
          (case success_and data_user response of
             Inl e \<Rightarrow> (Inl e, handleApiError e s1)
           | Inr (Some u) \<Rightarrow> (Inr response, emit (Toast ''success'') (setUser u s1))
           | Inr None \<Rightarrow> (Inl invalid_response, handleApiError invalid_response s1)))"

text \<open>
  \<^verbatim>\<open>validateToken()\<close>: the profile is fetched; a user in the response is set, anything
  else clears the session, an error clears it and is thrown again; \<^verbatim>\<open>finally\<close>,
  \<^verbatim>\<open>isLoading\<close> becomes false and the listeners are notified.
\<close>

definition validateToken :: "fetch_outcome \<Rightarrow> app \<Rightarrow> (js_error + unit) \<times> app" where
  "validateToken out s =
     (let (res, s2) =
            (case getProfile out s of
               (Inl e, s1) \<Rightarrow> (Inl e, clearAuth s1)
             | (Inr response, s1) \<Rightarrow>
                 (case success_and data_user response of
                    Inl e \<Rightarrow> (Inl e, clearAuth s1)
                  | Inr (Some u) \<Rightarrow> (Inr (), setUser u s1)
                  | Inr None \<Rightarrow> (Inr (), clearAuth s1)))
      in (res, notifyListeners (s2\<lparr>isLoading := False\<rparr>)))"

text \<open>The rest of \<^verbatim>\<open>init()\<close> once the profile request is settled.\<close>

definition init_validated :: "fetch_outcome \<Rightarrow> app \<Rightarrow> app" where
  "init_validated out s =
     (case validateToken out s of
        (Inl e, s1) \<Rightarrow> clearAuth s1
      | (Inr _, s1) \<Rightarrow> s1)"

text \<open>
  \<^verbatim>\<open>logout()\<close>: \<^verbatim>\<open>api.logout()\<close>, \<^verbatim>\<open>clearAuth()\<close>, a toast, and the \<^verbatim>\<open>router:navigate\<close>
  event, whose listener calls \<^verbatim>\<open>navigate('/login')\<close>.
\<close>

definition logout :: "app \<Rightarrow> app" where
  "logout s =
     (let s1 = api_logout s;
          s2 = clearAuth s1;
          s3 = emit (Toast ''info'') s2
      in navigate ''/login'' False s3)"

section \<open>The application as a whole\<close>

text \<open>
  The state once the modules are loaded, given the stored token and the location. With
  a stored token, \<^verbatim>\<open>init()\<close> sets it on the client and waits for the profile; the
  router, built while \<^verbatim>\<open>isLoading\<close> holds, subscribes its second listener. Without,
  \<^verbatim>\<open>isLoading\<close> is false when the router is built and it resolves the location at once.
\<close>

definition app_boot :: "string option \<Rightarrow> string \<Rightarrow> app" where
  "app_boot stored location =
     (let s0 = \<lparr>token = stored, stored_token = stored, user = None, isAuthenticated = False,
                isLoading = True, currentRoute = None, currentParams = Map.empty,
                awaitingInitial = False, pathname = location, ui = ui_init, events = []\<rparr>
      in if truthy_str stored
         then (setToken stored s0)\<lparr>awaitingInitial := True\<rparr>
         else handleRoute location (s0\<lparr>isLoading := False\<rparr>))"

text \<open>
  What can happen next: the profile request of \<^verbatim>\<open>init\<close> settles, a login or a
  registration settles, the user logs out, any other request settles, a link is
  clicked, the history is moved, a group page finishes loading. Each step runs to its
  end before the next. The steps are allowed in any order, which is more than the
  program can do.
\<close>

datatype app_op =
    InitValidated fetch_outcome
  | Login fetch_outcome
  | Register fetch_outcome
  | Logout
  | Request string fetch_outcome
  | Navigate string
  | PopState string
  | GroupLoaded string

fun app_step :: "app \<Rightarrow> app_op \<Rightarrow> app" where
  "app_step s (InitValidated out) = init_validated out s"
| "app_step s (Login out) = snd (login out s)"
| "app_step s (Register out) = snd (register out s)"
| "app_step s Logout = logout s"
| "app_step s (Request endpoint out) = snd (request endpoint out s)"
| "app_step s (Navigate path) = navigate path False s"
| "app_step s (PopState path) = popstate path s"
| "app_step s (GroupLoaded groupId) = renderGroup_loaded groupId s"

definition app_run :: "string option \<Rightarrow> string \<Rightarrow> app_op list \<Rightarrow> app" where
  "app_run stored location ops = foldl app_step (app_boot stored location) ops"

text \<open>A session in the words of the specification: a user and a token are held.\<close>

definition session_held :: "app \<Rightarrow> bool" where
  "session_held s = (user s \<noteq> None \<and> truthy_str (token s))"

text \<open>Concrete inputs: a 200 response with a JSON body, a user, and a 401 response whose
  body is declared JSON and does not parse.\<close>

definition session_response :: "user option \<Rightarrow> string option \<Rightarrow> fetch_outcome" where
  "session_response u t =
     Responded \<lparr>resp_status = 200, statusText = ''OK'',
       contentType = Some ''application/json; charset=utf-8'',
       json_body = Some (JsonObject \<lparr>success = True,
         payload_data = Some \<lparr>data_user = u, data_token = t\<rparr>, error_message = None\<rparr>),
       text_body = []\<rparr>"

definition ana :: user where
  "ana = \<lparr>user_id = 1, user_name = ''ana''\<rparr>"

definition unreadable_401 :: fetch_outcome where
  "unreadable_401 =
     Responded \<lparr>resp_status = 401, statusText = ''Unauthorized'',
       contentType = Some ''application/json'', json_body = None, text_body = []\<rparr>"

definition auth_ok :: "app \<Rightarrow> bool" where
  "auth_ok s = (isAuthenticated s = (user s \<noteq> None))"

definition session_part ::
  "app \<Rightarrow> string option \<times> string option \<times> user option \<times> bool \<times> bool \<times> ui_state \<times> bool" where
  "session_part s =
     (token s, stored_token s, user s, isAuthenticated s, isLoading s, ui s, awaitingInitial s)"

section \<open>Properties of the chat polling\<close>

lemma polling_inv_init: "polling_inv ui_init"
  by (simp add: ui_init_def polling_inv_def)

lemma polling_inv_stop: "polling_inv u \<Longrightarrow> polling_inv (stopChatPolling u)"
  by (auto simp: polling_inv_def stopChatPolling_def clearInterval_def split: option.splits)

lemma stop_clears_timers: "polling_inv u \<Longrightarrow> intervals (stopChatPolling u) = []"
  by (auto simp: polling_inv_def stopChatPolling_def clearInterval_def split: option.splits)

lemma stop_handle_None: "polling_inv u \<Longrightarrow> chatPolling (stopChatPolling u) = None"
  by (auto simp: polling_inv_def stopChatPolling_def clearInterval_def split: option.splits)

lemma start_after_inv:
  assumes "polling_inv u"
  shows "intervals (startChatPolling g u) = [(Suc (lastHandle u), g)]"
    and "chatPolling (startChatPolling g u) = Some (Suc (lastHandle u))"
    and "currentGroupId (startChatPolling g u) = Some g"
    and "lastHandle (startChatPolling g u) = Suc (lastHandle u)"
proof -
  have l: "lastHandle (stopChatPolling u) = lastHandle u"
    by (simp add: stopChatPolling_def clearInterval_def)
  from assms have e: "intervals (stopChatPolling u) = []"
    by (rule stop_clears_timers)
  show "intervals (startChatPolling g u) = [(Suc (lastHandle u), g)]"
    by (simp add: startChatPolling_def setInterval_def Let_def l e)
  show "chatPolling (startChatPolling g u) = Some (Suc (lastHandle u))"
    by (simp add: startChatPolling_def setInterval_def Let_def l)
  show "currentGroupId (startChatPolling g u) = Some g"
    by (simp add: startChatPolling_def setInterval_def Let_def)
  show "lastHandle (startChatPolling g u) = Suc (lastHandle u)"
    by (simp add: startChatPolling_def setInterval_def Let_def l)
qed

lemma polling_inv_start: "polling_inv u \<Longrightarrow> polling_inv (startChatPolling g u)"
  using start_after_inv [of u g] by (simp add: polling_inv_def)

lemma polling_inv_foldl: "polling_inv u \<Longrightarrow> polling_inv (foldl polling_step u ops)"
proof (induction ops arbitrary: u)
  case Nil
  then show ?case by simp
next
  case (Cons a ops)
  then show ?case
    by (cases a) (simp_all add: polling_inv_start polling_inv_stop)
qed

lemma polling_inv_run: "polling_inv (polling_run ops)"
  unfolding polling_run_def by (rule polling_inv_foldl [OF polling_inv_init])

lemma stop_stop: "stopChatPolling (stopChatPolling u) = stopChatPolling u"
  by (simp add: stopChatPolling_def clearInterval_def)

lemma one_timer:
  assumes "polling_inv u"
  shows "length (intervals u) \<le> 1"
    and "map fst (intervals u) = (case chatPolling u of None \<Rightarrow> [] | Some h \<Rightarrow> [h])"
  using assms by (auto simp: polling_inv_def split: option.splits)

lemma two_starts:
  assumes "polling_inv u"
  shows "let v = startChatPolling y (startChatPolling x u)
      in intervals v = [(lastHandle v, y)] \<and> chatPolling v = Some (lastHandle v)
         \<and> currentGroupId v = Some y"
  using start_after_inv [OF polling_inv_start [OF assms, of x], of y] by (simp add: Let_def)

text \<open>
  C8, as stated: \<^verbatim>\<open>stop()\<close> clears all polling state, the interval handle and the
  group id. It does not: \<^verbatim>\<open>stopChatPolling\<close> never assigns \<^verbatim>\<open>currentGroupId\<close>, so after
  \<^verbatim>\<open>start('g1')\<close> and \<^verbatim>\<open>stop()\<close> the group id is still \<open>g1\<close>.
\<close>

theorem stop_keeps_group_id_counterexample:
  "\<not> (currentGroupId (stopChatPolling (startChatPolling ''g1'' ui_init)) = None
       \<and> chatPolling (stopChatPolling (startChatPolling ''g1'' ui_init)) = None)"
  by (simp add: stopChatPolling_def startChatPolling_def setInterval_def clearInterval_def
      ui_init_def Let_def)

text \<open>
  C8, amended. \<^verbatim>\<open>stop()\<close> is idempotent: from any state the second of two calls in a row
  changes nothing. It cancels the interval the handle names, if the handle is set, and
  resets the handle; the group id of the last \<^verbatim>\<open>start\<close> is kept. In every state reached
  by \<^verbatim>\<open>start\<close>/\<^verbatim>\<open>stop\<close> calls, no timer is left after \<^verbatim>\<open>stop()\<close>.
\<close>

theorem stop_idempotent:
  "stopChatPolling (stopChatPolling u) = stopChatPolling u
   \<and> \<not> truthy_handle (chatPolling (stopChatPolling u))
   \<and> intervals (stopChatPolling u) =
       (if truthy_handle (chatPolling u)
        then filter (\<lambda>t. fst t \<noteq> the (chatPolling u)) (intervals u) else intervals u)
   \<and> currentGroupId (stopChatPolling u) = currentGroupId u
   \<and> intervals (stopChatPolling (polling_run ops)) = []
   \<and> chatPolling (stopChatPolling (polling_run ops)) = None"
proof -
  have inv: "polling_inv (polling_run ops)" by (rule polling_inv_run)
  have a: "stopChatPolling (stopChatPolling u) = stopChatPolling u"
    by (rule stop_stop)
  have b: "\<not> truthy_handle (chatPolling (stopChatPolling u))"
    by (simp add: stopChatPolling_def clearInterval_def)
  have c: "intervals (stopChatPolling u) =
       (if truthy_handle (chatPolling u)
        then filter (\<lambda>t. fst t \<noteq> the (chatPolling u)) (intervals u) else intervals u)"
    by (simp add: stopChatPolling_def clearInterval_def)
  have d: "currentGroupId (stopChatPolling u) = currentGroupId u"
    by (simp add: stopChatPolling_def clearInterval_def)
  note e = stop_clears_timers [OF inv] and f = stop_handle_None [OF inv]
  from a b c d e f show ?thesis by blast
qed

section \<open>Properties of route matching\<close>

lemma split_slash_ne [simp]: "split_slash s \<noteq> []"
  by (induction s) auto






subsection \<open>The scan of the pattern\<close>






subsection \<open>The match\<close>























section \<open>Properties of route resolution\<close>

lemma session_part_emit [simp]: "session_part (emit e s) = session_part s"
  by (simp add: session_part_def emit_def)

text \<open>Resolving a route touches the router's fields, the location and the trace only.\<close>

lemma route_keeps_session:
  "session_part (handleRoute path s) = session_part s"
  "session_part (navigate path replace s) = session_part s"
proof (induction path s and path replace s rule: handleRoute_navigate.induct)
  case (1 path s)
  show ?case
  proof (cases "findRoute setupRoutes path")
    case None
    then show ?thesis by (subst handleRoute.simps) simp
  next
    case (Some a)
    obtain r ps where a: "a = (r, ps)" by (cases a)
    show ?thesis
      using 1 [OF Some a [symmetric]] Some a
      by (subst handleRoute.simps) (auto simp: Let_def session_part_def emit_def)
  qed
next
  case (2 path replace s)
  then show ?case
    by (subst navigate.simps) (auto simp: session_part_def emit_def)
qed

lemma handleRoute_login_anon:
  "\<not> isAuthenticated s \<Longrightarrow>
   handleRoute ''/login'' s =
     emit (Invoked RenderLogin Map.empty)
       (s\<lparr>currentRoute := Some ''/login'', currentParams := Map.empty\<rparr>)"
  by (subst handleRoute.simps) (simp add: findRoute_login Let_def)

lemma handleRoute_dashboard_auth:
  "isAuthenticated s \<Longrightarrow>
   handleRoute ''/dashboard'' s =
     emit (Invoked RenderDashboard Map.empty)
       (s\<lparr>currentRoute := Some ''/dashboard'', currentParams := Map.empty\<rparr>)"
  by (subst handleRoute.simps) (simp add: findRoute_dashboard Let_def)

lemma navigate_login_anon:
  "\<not> isAuthenticated s \<Longrightarrow>
   navigate ''/login'' True s =
     (if currentRoute s = Some ''/login'' then s
      else s\<lparr>pathname := ''/login'', currentRoute := Some ''/login'', currentParams := Map.empty,
             events := events s @ [ReplaceState ''/login'', Invoked RenderLogin Map.empty]\<rparr>)"
  by (subst navigate.simps) (simp add: handleRoute_login_anon emit_def)

lemma navigate_dashboard_auth:
  "isAuthenticated s \<Longrightarrow>
   navigate ''/dashboard'' True s =
     (if currentRoute s = Some ''/dashboard'' then s
      else s\<lparr>pathname := ''/dashboard'', currentRoute := Some ''/dashboard'',
             currentParams := Map.empty,
             events := events s @ [ReplaceState ''/dashboard'', Invoked RenderDashboard Map.empty]\<rparr>)"
  by (subst navigate.simps) (simp add: handleRoute_dashboard_auth emit_def)

lemma setupRoutes_protected:
  "r \<in> snd ` set setupRoutes \<Longrightarrow> requiresAuth r \<Longrightarrow>
   handler r = RenderDashboard \<or> handler r = RenderGroup"
  by (auto simp: setupRoutes_def)

lemmas run_defs =
  app_run_def app_boot_def login_def register_def api_login_def api_register_def request_def
  request_try_def read_body_def includes_str_def response_ok_def success_and_def
  setUser_def clearAuth_def notifyListeners_def handleAuthStateChange_def
  handleRoute.simps navigate.simps findRoute_def setupRoutes_def matchRoute_def
  assign_params_def isWordChar_def notSlash_def emit_def setToken_def session_response_def
  ana_def unreadable_401_def dispatch_auth_logout_def renderGroup_loaded_def
  startChatPolling_def stopChatPolling_def setInterval_def clearInterval_def ui_init_def
  popstate_def handleApiError_def Let_def

text \<open>
  What resolving a path whose route has \<^verbatim>\<open>requiresAuth\<close> does while anonymous: the
  route's handler is never invoked, and the call is \<^verbatim>\<open>navigate('/login', true)\<close>, which
  replaces the history entry and invokes the login handler unless \<^verbatim>\<open>this.currentRoute\<close>
  is \<^verbatim>\<open>/login\<close>, where it returns with the state as it was. A change of the
  authentication state while the location is such a path makes the same call.
\<close>

lemma protected_route_anonymous:
  assumes "findRoute setupRoutes path = Some (r, ps)" and "requiresAuth r"
    and "\<not> isAuthenticated s"
  shows "handleRoute path s =
     (if currentRoute s = Some ''/login'' then s
      else s\<lparr>pathname := ''/login'', currentRoute := Some ''/login'', currentParams := Map.empty,
             events := events s @ [ReplaceState ''/login'', Invoked RenderLogin Map.empty]\<rparr>)
     \<and> (\<forall>q. Invoked (handler r) q \<notin>
           set (drop (length (events s)) (events (handleRoute path s))))
     \<and> (pathname s = path \<longrightarrow> handleAuthStateChange s = handleRoute path s)"
proof -
  have h: "handleRoute path s = navigate ''/login'' True s"
    using assms by (subst handleRoute.simps) simp
  have a: "pathname s = path \<Longrightarrow> handleAuthStateChange s = navigate ''/login'' True s"
    using assms by (simp add: handleAuthStateChange_def)
  have p: "handler r \<noteq> RenderLogin"
    using setupRoutes_protected [OF findRoute_in [OF assms(1)] assms(2)] by auto
  have n: "navigate ''/login'' True s =
     (if currentRoute s = Some ''/login'' then s
      else s\<lparr>pathname := ''/login'', currentRoute := Some ''/login'', currentParams := Map.empty,
             events := events s @ [ReplaceState ''/login'', Invoked RenderLogin Map.empty]\<rparr>)"
    by (rule navigate_login_anon [OF assms(3)])
  have q: "\<forall>q. Invoked (handler r) q \<notin>
           set (drop (length (events s)) (events (navigate ''/login'' True s)))"
    using p by (simp add: n)
  show ?thesis
    using h a q n by simp
qed

text \<open>
  C1 fails on the code. Failing input: an anonymous visitor on the login page follows
  a link to \<^verbatim>\<open>/dashboard\<close>. \<^verbatim>\<open>navigate\<close> pushes \<^verbatim>\<open>/dashboard\<close> and resolves it; the
  route requires authentication and \<^verbatim>\<open>handleRoute\<close> calls \<^verbatim>\<open>navigate('/login', true)\<close>,
  which compares its path with \<^verbatim>\<open>this.currentRoute\<close>, the route last rendered, not with
  the location, and returns at once. Resolving \<^verbatim>\<open>/dashboard\<close> in that state changes
  nothing: no history entry is replaced by \<^verbatim>\<open>/login\<close> and the location stays
  \<^verbatim>\<open>/dashboard\<close>. The dashboard handler is not invoked.
\<close>

theorem protected_redirect_skipped:
  "\<not> isAuthenticated (app_boot None ''/login'')
   \<and> map_option (requiresAuth \<circ> fst) (findRoute setupRoutes ''/dashboard'') = Some True
   \<and> handleRoute ''/dashboard'' (app_boot None ''/login'') = app_boot None ''/login''
   \<and> events (navigate ''/dashboard'' False (app_boot None ''/login'')) =
       [Invoked RenderLogin Map.empty, PushState ''/dashboard'']
   \<and> pathname (navigate ''/dashboard'' False (app_boot None ''/login'')) = ''/dashboard''
   \<and> currentRoute (navigate ''/dashboard'' False (app_boot None ''/login'')) = Some ''/login''"
  by (simp add: run_defs)

text \<open>
  C10. Resolving \<^verbatim>\<open>/\<close> renders nothing of its own: in every state its handler
  replaces the history entry by \<^verbatim>\<open>/dashboard\<close> when authenticated and by \<^verbatim>\<open>/login\<close>
  when anonymous, and the handler of that route is the only page handler invoked.
\<close>

theorem root_redirects:
  "handleRoute ''/'' s =
     (let target = (if isAuthenticated s then ''/dashboard'' else ''/login'');
          page = (if isAuthenticated s then RenderDashboard else RenderLogin)
      in s\<lparr>pathname := target, currentRoute := Some target, currentParams := Map.empty,
           events := events s @ [Invoked RedirectToDefaultRoute Map.empty, ReplaceState target,
                                 Invoked page Map.empty]\<rparr>)"
proof (cases "isAuthenticated s")
  case True
  then show ?thesis
    by (subst handleRoute.simps)
       (simp add: findRoute_root Let_def emit_def navigate_dashboard_auth)
next
  case False
  then show ?thesis
    by (subst handleRoute.simps)
       (simp add: findRoute_root Let_def emit_def navigate_login_anon)
qed

section \<open>Properties of the HTTP client and of the authentication state\<close>

lemma route_keeps_fields [simp]:
  "user (handleRoute path s) = user s"
  "isAuthenticated (handleRoute path s) = isAuthenticated s"
  "token (handleRoute path s) = token s"
  "stored_token (handleRoute path s) = stored_token s"
  "isLoading (handleRoute path s) = isLoading s"
  "ui (handleRoute path s) = ui s"
  "user (navigate path replace s) = user s"
  "isAuthenticated (navigate path replace s) = isAuthenticated s"
  "token (navigate path replace s) = token s"
  "stored_token (navigate path replace s) = stored_token s"
  "isLoading (navigate path replace s) = isLoading s"
  "ui (navigate path replace s) = ui s"
  using route_keeps_session(1) [of path s] route_keeps_session(2) [of path replace s]
  by (simp_all add: session_part_def)

lemma emit_fields [simp]:
  "user (emit e s) = user s"
  "isAuthenticated (emit e s) = isAuthenticated s"
  "token (emit e s) = token s"
  "stored_token (emit e s) = stored_token s"
  "isLoading (emit e s) = isLoading s"
  "ui (emit e s) = ui s"
  by (simp_all add: emit_def)

lemma setToken_fields [simp]:
  "user (setToken t s) = user s"
  "isAuthenticated (setToken t s) = isAuthenticated s"
  "token (setToken t s) = t"
  "stored_token (setToken t s) = (if truthy_str t then t else None)"
  "isLoading (setToken t s) = isLoading s"
  "ui (setToken t s) = ui s"
  by (simp_all add: setToken_def)

lemma handleAuthStateChange_fields [simp]:
  "user (handleAuthStateChange s) = user s"
  "isAuthenticated (handleAuthStateChange s) = isAuthenticated s"
  "token (handleAuthStateChange s) = token s"
  "stored_token (handleAuthStateChange s) = stored_token s"
  "isLoading (handleAuthStateChange s) = isLoading s"
  "ui (handleAuthStateChange s) = ui s"
  by (simp_all add: handleAuthStateChange_def split: option.splits)

lemma notifyListeners_fields [simp]:
  "user (notifyListeners s) = user s"
  "isAuthenticated (notifyListeners s) = isAuthenticated s"
  "token (notifyListeners s) = token s"
  "stored_token (notifyListeners s) = stored_token s"
  "isLoading (notifyListeners s) = isLoading s"
  "ui (notifyListeners s) = ui s"
  by (simp_all add: notifyListeners_def Let_def)

lemma setUser_fields [simp]:
  "user (setUser u s) = Some u"
  "isAuthenticated (setUser u s) = True"
  "token (setUser u s) = token s"
  "stored_token (setUser u s) = stored_token s"
  "isLoading (setUser u s) = isLoading s"
  "ui (setUser u s) = ui s"
  by (simp_all add: setUser_def)

lemma clearAuth_fields [simp]:
  "user (clearAuth s) = None"
  "isAuthenticated (clearAuth s) = False"
  "token (clearAuth s) = None"
  "stored_token (clearAuth s) = None"
  "isLoading (clearAuth s) = isLoading s"
  "ui (clearAuth s) = ui s"
  by (simp_all add: clearAuth_def)

subsection \<open>Network failures\<close>

text \<open>
  C9. A \<^verbatim>\<open>fetch\<close> that rejects reaches the caller of \<^verbatim>\<open>request\<close> as that error, with
  no status, and the token is left as it was; the callers \<^verbatim>\<open>login\<close>, \<^verbatim>\<open>register\<close> and
  \<^verbatim>\<open>validateToken\<close> pass the same error on.
\<close>

theorem network_failure_propagates:
  "request endpoint (Rejected m) s =
     (Inl \<lparr>error_name = ''TypeError'', message = m, status = None, error_data = None\<rparr>,
      emit ConsoleError s)
   \<and> fst (login (Rejected m) s) =
       Inl \<lparr>error_name = ''TypeError'', message = m, status = None, error_data = None\<rparr>
   \<and> fst (register (Rejected m) s) =
       Inl \<lparr>error_name = ''TypeError'', message = m, status = None, error_data = None\<rparr>
   \<and> fst (validateToken (Rejected m) s) =
       Inl \<lparr>error_name = ''TypeError'', message = m, status = None, error_data = None\<rparr>
   \<and> token (snd (request endpoint (Rejected m) s)) = token s
   \<and> stored_token (snd (request endpoint (Rejected m) s)) = stored_token s"
  by (simp add: request_def request_try_def login_def register_def api_login_def
      api_register_def validateToken_def getProfile_def Let_def)

subsection \<open>Status 401\<close>

text \<open>
  When the body of a 401 response is read, \<^verbatim>\<open>request\<close> clears the token and the stored
  token and the \<^verbatim>\<open>auth:logout\<close> listener clears the session, all in the state the caller
  finds when the error arrives.
\<close>

lemma request_401_readable:
  assumes "read_body r = Inr d" and "resp_status r = 401"
  shows "map_sum status id (fst (request endpoint (Responded r) s)) = Inl (Some 401)"
    and "token (snd (request endpoint (Responded r) s)) = None"
    and "stored_token (snd (request endpoint (Responded r) s)) = None"
    and "user (snd (request endpoint (Responded r) s)) = None"
    and "\<not> isAuthenticated (snd (request endpoint (Responded r) s))"
  using assms
  by (simp_all add: request_def request_try_def response_ok_def dispatch_auth_logout_def Let_def)

text \<open>
  C4 holds for such responses only. Failing input: a 401 response that declares
  \<^verbatim>\<open>application/json\<close> and whose body does not parse, received while a session with
  token \<open>tok\<close> is held. \<^verbatim>\<open>response.json()\<close> rejects inside the \<^verbatim>\<open>try\<close> block, the
  \<^verbatim>\<open>catch\<close> block sees an error with no \<^verbatim>\<open>status\<close>, and the error reaches the caller
  with the token, the stored token and the session still in place and no
  \<^verbatim>\<open>auth:logout\<close> dispatched.
\<close>

theorem unreadable_401_keeps_token:
  "map_sum status id (fst (request ''/api/groups'' unreadable_401
       (app_run None ''/login'' [Login (session_response (Some ana) (Some ''tok''))]))) = Inl None
   \<and> token (snd (request ''/api/groups'' unreadable_401
       (app_run None ''/login'' [Login (session_response (Some ana) (Some ''tok''))]))) = Some ''tok''
   \<and> stored_token (snd (request ''/api/groups'' unreadable_401
       (app_run None ''/login'' [Login (session_response (Some ana) (Some ''tok''))]))) = Some ''tok''
   \<and> isAuthenticated (snd (request ''/api/groups'' unreadable_401
       (app_run None ''/login'' [Login (session_response (Some ana) (Some ''tok''))])))
   \<and> AuthLogoutEvent \<notin> set (events (snd (request ''/api/groups'' unreadable_401
       (app_run None ''/login'' [Login (session_response (Some ana) (Some ''tok''))]))))"
  by (simp add: run_defs)

subsection \<open>Login\<close>

text \<open>The parts of the contract of \<^verbatim>\<open>login\<close> that hold.\<close>

lemma login_stores_session:
  assumes "request_try out = Inr (JsonObject p)" and "success p" and "payload_data p = Some d"
    and "data_user d = Some u" and "truthy_str (data_token d)"
  shows "fst (login out s) = Inr (JsonObject p)"
    and "token (snd (login out s)) = data_token d"
    and "stored_token (snd (login out s)) = data_token d"
    and "user (snd (login out s)) = Some u"
    and "isAuthenticated (snd (login out s))"
  using assms
  by (simp_all add: login_def api_login_def request_def success_and_def)

lemma login_missing_user_fails:
  assumes "request_try out = Inr (JsonObject p)" and "success p" and "payload_data p = Some d"
    and "data_user d = None"
  shows "fst (login out s) = Inl invalid_response"
    and "isAuthenticated (snd (login out s)) = isAuthenticated s"
  using assms
  by (simp_all add: login_def api_login_def request_def success_and_def handleApiError_def)

lemma login_error_unchanged:
  assumes "request_try out = Inl e"
  shows "fst (login out s) = Inl e"
  using assms
  by (simp add: login_def api_login_def request_def Let_def)

text \<open>
  C3 fails where the token is missing. Failing input: the response
  \<^verbatim>\<open>{success: true, data: {user: {...}}}\<close>, with no token, to an anonymous visitor on
  the login page. \<^verbatim>\<open>api.login\<close> stores nothing, \<^verbatim>\<open>auth.login\<close> checks
  \<^verbatim>\<open>response.data.user\<close> only: the response is returned, no error is thrown, and the
  state is authenticated with no token held or stored.
\<close>

theorem login_accepts_missing_token:
  "fst (login (session_response (Some ana) None) (app_boot None ''/login'')) =
     Inr (JsonObject \<lparr>success = True,
       payload_data = Some \<lparr>data_user = Some ana, data_token = None\<rparr>, error_message = None\<rparr>)
   \<and> isAuthenticated (snd (login (session_response (Some ana) None) (app_boot None ''/login'')))
   \<and> token (snd (login (session_response (Some ana) None) (app_boot None ''/login''))) = None
   \<and> stored_token (snd (login (session_response (Some ana) None) (app_boot None ''/login''))) = None"
  by (simp add: run_defs)

subsection \<open>The authentication invariant\<close>

lemma auth_ok_request: "auth_ok s \<Longrightarrow> auth_ok (snd (request endpoint out s))"
  by (auto simp: request_def auth_ok_def dispatch_auth_logout_def Let_def split: sum.splits)

lemma auth_ok_api_login: "auth_ok s \<Longrightarrow> auth_ok (snd (api_login out s))"
  using auth_ok_request [of s "''/api/auth/login''" out]
  by (auto simp: api_login_def auth_ok_def split: prod.splits sum.splits)

lemma auth_ok_api_register: "auth_ok s \<Longrightarrow> auth_ok (snd (api_register out s))"
  using auth_ok_request [of s "''/api/auth/register''" out]
  by (auto simp: api_register_def auth_ok_def split: prod.splits sum.splits)

lemma auth_ok_login: "auth_ok s \<Longrightarrow> auth_ok (snd (login out s))"
  using auth_ok_api_login [of s out]
  by (auto simp: login_def auth_ok_def handleApiError_def
      split: prod.splits sum.splits option.splits)

lemma auth_ok_register: "auth_ok s \<Longrightarrow> auth_ok (snd (register out s))"
  using auth_ok_api_register [of s out]
  by (auto simp: register_def auth_ok_def handleApiError_def
      split: prod.splits sum.splits option.splits)

lemma auth_ok_validate: "auth_ok (snd (validateToken out s))"
  by (auto simp: validateToken_def auth_ok_def getProfile_def Let_def
      split: prod.splits sum.splits option.splits)

lemma auth_ok_init_validated: "auth_ok (init_validated out s)"
  using auth_ok_validate [of out s]
  by (auto simp: init_validated_def auth_ok_def split: prod.splits sum.splits)

lemma auth_ok_logout: "auth_ok (logout s)"
  by (simp add: logout_def auth_ok_def Let_def)

lemma auth_ok_boot: "auth_ok (app_boot stored location)"
  by (simp add: app_boot_def auth_ok_def Let_def setToken_def)

lemma auth_ok_step: "auth_ok s \<Longrightarrow> auth_ok (app_step s op)"
proof (cases op)
  case (InitValidated x1)
  then show ?thesis by (simp add: auth_ok_init_validated)
next
  case (Login x2)
  assume "auth_ok s"
  with Login show ?thesis by (simp add: auth_ok_login)
next
  case (Register x3)
  assume "auth_ok s"
  with Register show ?thesis by (simp add: auth_ok_register)
next
  case Logout
  then show ?thesis by (simp add: auth_ok_logout)
next
  case (Request x51 x52)
  assume "auth_ok s"
  with Request show ?thesis by (simp add: auth_ok_request)
next
  case (Navigate x6)
  assume "auth_ok s"
  with Navigate show ?thesis by (simp add: auth_ok_def)
next
  case (PopState x7)
  assume "auth_ok s"
  with PopState show ?thesis by (simp add: auth_ok_def popstate_def)
next
  case (GroupLoaded x8)
  assume "auth_ok s"
  with GroupLoaded show ?thesis by (simp add: auth_ok_def renderGroup_loaded_def)
qed

lemma auth_ok_foldl: "auth_ok s \<Longrightarrow> auth_ok (foldl app_step s ops)"
  by (induction ops arbitrary: s) (simp_all add: auth_ok_step)

text \<open>
  \<^verbatim>\<open>isAuthenticated\<close> and \<^verbatim>\<open>user\<close> are assigned together: in every state the
  application reaches, \<^verbatim>\<open>isAuthenticated\<close> is true iff a user is held.
\<close>

lemma authenticated_iff_user:
  "isAuthenticated (app_run stored location ops) = (user (app_run stored location ops) \<noteq> None)"
  using auth_ok_foldl [OF auth_ok_boot, of stored location ops]
  by (simp add: app_run_def auth_ok_def)

text \<open>
  C5 fails on the code, by the defect of C3. Failing input: an anonymous visitor on the
  login page logs in and the response carries a user and no token. \<^verbatim>\<open>auth.login\<close>
  accepts it, so \<^verbatim>\<open>isAuthenticated\<close> is true while no session with a token is held.
\<close>

theorem authenticated_without_token:
  "isAuthenticated (app_run None ''/login'' [Login (session_response (Some ana) None)])
   \<and> user (app_run None ''/login'' [Login (session_response (Some ana) None)]) = Some ana
   \<and> token (app_run None ''/login'' [Login (session_response (Some ana) None)]) = None
   \<and> stored_token (app_run None ''/login'' [Login (session_response (Some ana) None)]) = None
   \<and> \<not> session_held (app_run None ''/login'' [Login (session_response (Some ana) None)])"
  by (simp add: run_defs session_held_def)

section \<open>Polling and navigation\<close>

text \<open>Only the end of \<^verbatim>\<open>renderGroup\<close> changes the polling state.\<close>

lemma ui_request: "ui (snd (request endpoint out s)) = ui s"
  by (auto simp: request_def dispatch_auth_logout_def Let_def split: sum.splits)

lemma ui_api_login: "ui (snd (api_login out s)) = ui s"
  using ui_request [of "''/api/auth/login''" out s]
  by (auto simp: api_login_def split: prod.splits sum.splits)

lemma ui_api_register: "ui (snd (api_register out s)) = ui s"
  using ui_request [of "''/api/auth/register''" out s]
  by (auto simp: api_register_def split: prod.splits sum.splits)

lemma ui_login: "ui (snd (login out s)) = ui s"
  using ui_api_login [of out s]
  by (auto simp: login_def handleApiError_def split: prod.splits sum.splits option.splits)

lemma ui_register: "ui (snd (register out s)) = ui s"
  using ui_api_register [of out s]
  by (auto simp: register_def handleApiError_def split: prod.splits sum.splits option.splits)

lemma ui_validateToken: "ui (snd (validateToken out s)) = ui s"
  using ui_request [of "''/api/auth/profile''" out s]
  by (auto simp: validateToken_def getProfile_def Let_def
      split: prod.splits sum.splits option.splits)

lemma ui_init_validated: "ui (init_validated out s) = ui s"
  using ui_validateToken [of out s]
  by (auto simp: init_validated_def split: prod.splits sum.splits)

lemma ui_logout: "ui (logout s) = ui s"
  by (simp add: logout_def api_logout_def dispatch_auth_logout_def Let_def)

lemmas ui_kept = ui_request ui_login ui_register ui_init_validated ui_logout

lemma ui_boot: "ui (app_boot stored location) = ui_init"
  by (simp add: app_boot_def Let_def)

lemma polling_inv_app_step: "polling_inv (ui s) \<Longrightarrow> polling_inv (ui (app_step s op))"
  by (cases op) (simp_all add: ui_kept popstate_def renderGroup_loaded_def polling_inv_start)

lemma polling_inv_app_foldl:
  "polling_inv (ui s) \<Longrightarrow> polling_inv (ui (foldl app_step s ops))"
  by (induction ops arbitrary: s) (simp_all add: polling_inv_app_step)

lemma polling_inv_app: "polling_inv (ui (app_run stored location ops))"
  unfolding app_run_def
  by (rule polling_inv_app_foldl) (simp add: ui_boot polling_inv_init)

text \<open>
  C7. At most one polling session is active at any time. After any sequence of
  \<^verbatim>\<open>start\<close>/\<^verbatim>\<open>stop\<close> calls, and in every state the application reaches, the timer table
  holds at most one timer, and it is the one the handle names; \<^verbatim>\<open>start(g1)\<close> then
  \<^verbatim>\<open>start(g2)\<close> leaves exactly one timer, scoped to \<open>g2\<close>, and so does \<^verbatim>\<open>start(g)\<close> twice.
\<close>

theorem polling_at_most_one:
  "length (intervals (polling_run ops)) \<le> 1
   \<and> map fst (intervals (polling_run ops)) =
       (case chatPolling (polling_run ops) of None \<Rightarrow> [] | Some h \<Rightarrow> [h])
   \<and> length (intervals (ui (app_run stored location steps))) \<le> 1
   \<and> map fst (intervals (ui (app_run stored location steps))) =
       (case chatPolling (ui (app_run stored location steps)) of None \<Rightarrow> [] | Some h \<Rightarrow> [h])
   \<and> (let u = startChatPolling g2 (startChatPolling g1 (polling_run ops))
      in intervals u = [(lastHandle u, g2)] \<and> chatPolling u = Some (lastHandle u)
         \<and> currentGroupId u = Some g2)
   \<and> (let u = startChatPolling g (startChatPolling g (polling_run ops))
      in intervals u = [(lastHandle u, g)] \<and> chatPolling u = Some (lastHandle u))"
proof -
  note inv = polling_inv_run [of ops] and inv_app = polling_inv_app [of stored location steps]
  have d: "let u = startChatPolling g (startChatPolling g (polling_run ops))
      in intervals u = [(lastHandle u, g)] \<and> chatPolling u = Some (lastHandle u)"
    using two_starts [OF inv, of g g] by (simp add: Let_def)
  from one_timer [OF inv] one_timer [OF inv_app] two_starts [OF inv, of g2 g1] d
  show ?thesis by blast
qed

text \<open>
  C6 fails on the code. Failing input: logged in, the visitor opens \<^verbatim>\<open>/group/g1\<close>, the
  page finishes loading and starts the polling, and the visitor navigates to
  \<^verbatim>\<open>/dashboard\<close>. Resolving a route never touches the polling state (lemma
  \<open>route_keeps_fields\<close>: \<open>ui\<close> is unchanged), so on the dashboard the interval timer of
  \<open>g1\<close> is still active and \<^verbatim>\<open>chatPolling\<close> still holds its handle.
\<close>

theorem polling_survives_navigation:
  "currentRoute (app_run None ''/login'' [Login (session_response (Some ana) (Some ''tok'')),
       Navigate ''/group/g1'', GroupLoaded ''g1'', Navigate ''/dashboard'']) = Some ''/dashboard''
   \<and> intervals (ui (app_run None ''/login'' [Login (session_response (Some ana) (Some ''tok'')),
       Navigate ''/group/g1'', GroupLoaded ''g1'', Navigate ''/dashboard''])) = [(1, ''g1'')]
   \<and> chatPolling (ui (app_run None ''/login'' [Login (session_response (Some ana) (Some ''tok'')),
       Navigate ''/group/g1'', GroupLoaded ''g1'', Navigate ''/dashboard''])) = Some 1"
  by (simp add: run_defs)

end
